theory Spec2Isabelle
  imports Complex_Main "HOL-Library.Char_ord" "HOL-Library.List_Lexorder" "HOL-Library.AList"
    "HOL-Library.Sublist" "HOL-Library.Multiset"
begin

section \<open>Python string primitives used by \<open>configs/config.py\<close>\<close>

text \<open>
  Python strings are modelled as \<^typ>\<open>string\<close>. The characters the source tests for
  (\<open>=\<close>, \<open>-\<close>, \<open>_\<close>, \<open>:\<close>, \<open>/\<close>, \<open>a-z\<close>, \<open>0-9\<close>) are ASCII, so reading a
  string as its UTF-8 bytes does not change where they occur.
\<close>

text \<open>\<open>s.strip(c)\<close> for a one-character argument: drops every leading and every
  trailing occurrence of \<open>c\<close>.\<close>

definition py_strip :: "char \<Rightarrow> string \<Rightarrow> string" where
  "py_strip c s = rev (dropWhile (\<lambda>x. x = c) (rev (dropWhile (\<lambda>x. x = c) s)))"

text \<open>\<open>s.replace(a, b)\<close> for one-character arguments: every occurrence is replaced.\<close>

definition py_replace :: "char \<Rightarrow> char \<Rightarrow> string \<Rightarrow> string" where
  "py_replace a b s = map (\<lambda>x. if x = a then b else x) s"

text \<open>\<open>name, val = s.split(c, 1)\<close> for a string that contains \<open>c\<close>: the text before the
  first \<open>c\<close> and the text after it. (\<open>clean_opt\<close> only splits a string in which \<open>=\<close>
  occurs, so the unpacking into two names cannot fail there.)\<close>

definition py_split1 :: "char \<Rightarrow> string \<Rightarrow> string \<times> string" where
  "py_split1 c s = (takeWhile (\<lambda>x. x \<noteq> c) s, tl (dropWhile (\<lambda>x. x \<noteq> c) s))"

text \<open>\<open>sep.join(xs)\<close>.\<close>

fun py_join :: "string \<Rightarrow> string list \<Rightarrow> string" where
  "py_join sep [] = []"
| "py_join sep [x] = x"
| "py_join sep (x # y # ys) = x @ sep @ py_join sep (y # ys)"

section \<open>\<open>clean_opt\<close>\<close>

text \<open>
  \<^verbatim>\<open>
  def clean_opt(arg: str) -> str:
      if "=" not in arg:
          arg = f"{arg}=True"
      name, val = arg.split("=", 1)
      name = name.strip("-").replace("-", "_")
      return f"{name}={val}"
  \<close>
\<close>

definition clean_opt :: "string \<Rightarrow> string" where
  "clean_opt arg =
     (let arg1 = (if CHR ''='' \<notin> set arg then arg @ ''=True'' else arg);
          (name, val) = py_split1 (CHR ''='') arg1;
          name1 = py_replace (CHR ''-'') (CHR ''_'') (py_strip (CHR ''-'') name)
      in name1 @ ''='' @ val)"

text \<open>
  The normalisation as the specification words it, for comparison with the source:
  \<open>=True\<close> is appended when there is no \<open>=\<close>, the string is split at the first \<open>=\<close>,
  and in the key the leading dashes are stripped and the dashes that remain are replaced
  with underscores. Nothing is said about trailing dashes of the key, so they are
  treated like the other remaining dashes.
\<close>

definition clean_opt_spec :: "string \<Rightarrow> string" where
  "clean_opt_spec arg =
     (let arg1 = (if CHR ''='' \<notin> set arg then arg @ ''=True'' else arg);
          name = takeWhile (\<lambda>x. x \<noteq> CHR ''='') arg1;
          val = tl (dropWhile (\<lambda>x. x \<noteq> CHR ''='') arg1);
          name1 = py_replace (CHR ''-'') (CHR ''_'') (dropWhile (\<lambda>x. x = CHR ''-'') name)
      in name1 @ ''='' @ val)"

text \<open>\<open>s.split(c)\<close> for a one-character separator: the pieces between the
  occurrences of \<open>c\<close>; a string without \<open>c\<close> is its own single piece.\<close>

fun py_split :: "char \<Rightarrow> string \<Rightarrow> string list" where
  "py_split c [] = [[]]"
| "py_split c (x # xs) =
     (if x = c then [] # py_split c xs
      else (case py_split c xs of [] \<Rightarrow> [[x]] | w # ws \<Rightarrow> (x # w) # ws))"

section \<open>Exceptions\<close>

text \<open>
  A raised exception is a value: the names of the classes its class inherits from, its
  own class first (the method resolution order), and \<open>str(e)\<close>. A clause
  \<open>except C as e\<close> catches \<open>e\<close> when \<open>C\<close> is among those classes. A function that may
  raise returns \<open>exn + 'a\<close>, with \<^const>\<open>Inl\<close> for the exception.
\<close>

datatype exn = Exn (exn_mro: "string list") (exn_str: string)

definition isinstance :: "exn \<Rightarrow> string \<Rightarrow> bool" where
  "isinstance e cls = (cls \<in> set (exn_mro e))"

text \<open>Sequencing of two steps either of which may raise.\<close>

definition and_then :: "exn + 'a \<Rightarrow> ('a \<Rightarrow> exn + 'b) \<Rightarrow> exn + 'b" where
  "and_then r f = (case r of Inl e \<Rightarrow> Inl e | Inr v \<Rightarrow> f v)"

text \<open>Python's built-in classes that the source raises or that reach it.\<close>

definition FileNotFoundError :: "string \<Rightarrow> exn" where
  "FileNotFoundError msg =
     Exn [''FileNotFoundError'', ''OSError'', ''Exception'', ''BaseException'', ''object''] msg"

definition TypeError :: "string \<Rightarrow> exn" where
  "TypeError msg = Exn [''TypeError'', ''Exception'', ''BaseException'', ''object''] msg"

text \<open>
  \<^verbatim>\<open>
  class ConfigurationError(Exception):
  class CliError(Exception):
  \<close>
\<close>

definition ConfigurationError :: "string \<Rightarrow> exn" where
  "ConfigurationError msg =
     Exn [''ConfigurationError'', ''Exception'', ''BaseException'', ''object''] msg"

definition CliError :: "string \<Rightarrow> exn" where
  "CliError msg = Exn [''CliError'', ''Exception'', ''BaseException'', ''object''] msg"

section \<open>The path resolvers\<close>

text \<open>
  \<^verbatim>\<open>
  def is_url(path: PathOrStr) -> bool:
      return re.match(r"[a-z0-9]+://.*", str(path)) is not None
  \<close>
  \<open>re.match\<close> anchors the pattern at the start of the string. The class \<open>[a-z0-9]\<close>
  does not contain \<open>:\<close>, so the only way to match is to take the longest run of class
  characters, which must not be empty and must be followed by \<open>://\<close>; the final \<open>.*\<close>
  also matches nothing. Lemma \<open>is_url_iff\<close> relates the function to the language
  of the pattern.
\<close>

definition scheme_char :: "char \<Rightarrow> bool" where
  "scheme_char c =
     ((CHR ''a'' \<le> c \<and> c \<le> CHR ''z'') \<or> (CHR ''0'' \<le> c \<and> c \<le> CHR ''9''))"

definition is_url :: "string \<Rightarrow> bool" where
  "is_url path =
     (let scheme = takeWhile scheme_char path;
          rest = dropWhile scheme_char path
      in scheme \<noteq> [] \<and> take 3 rest = ''://'')"

text \<open>
  The file system is a parameter of the resolvers: \<open>fs_glob p\<close> is what \<open>glob(p)\<close>
  returns, in the order the operating system lists it, and \<open>fs_exists p\<close> is
  \<open>Path(p).exists()\<close>.
\<close>

record filesystem =
  fs_glob :: "string \<Rightarrow> string list"
  fs_exists :: "string \<Rightarrow> bool"

text \<open>
  \<^verbatim>\<open>
  def path_glob(*paths) -> List[str]:
      out = []
      for path in paths:
          matches = sorted(glob(path))
          if not matches and validate_paths:
              raise FileNotFoundError(f"{path} does not match any files or dirs")
          out.extend(matches)
      return out
  \<close>
  \<open>sorted\<close> orders strings by code point, which is the lexicographic order of
  \<^typ>\<open>string\<close>.
\<close>

fun path_glob_loop :: "bool \<Rightarrow> (string \<Rightarrow> string list) \<Rightarrow> string list \<Rightarrow> string list
    \<Rightarrow> exn + string list" where
  "path_glob_loop validate_paths glob [] out = Inr out"
| "path_glob_loop validate_paths glob (path # paths) out =
     (let matches = sort (glob path) in
      if matches = [] \<and> validate_paths
      then Inl (FileNotFoundError (path @ '' does not match any files or dirs''))
      else path_glob_loop validate_paths glob paths (out @ matches))"

definition path_glob :: "bool \<Rightarrow> (string \<Rightarrow> string list) \<Rightarrow> string list
    \<Rightarrow> exn + string list" where
  "path_glob validate_paths glob paths = path_glob_loop validate_paths glob paths []"

text \<open>
  \<^verbatim>\<open>
  def path_choose(*paths) -> str:
      for path in paths:
          if is_url(path) or Path(path).exists():
              return path
      if validate_paths:
          raise FileNotFoundError(", ".join(paths))
      else:
          return ""
  \<close>
\<close>

fun path_choose_loop :: "bool \<Rightarrow> (string \<Rightarrow> bool) \<Rightarrow> string list \<Rightarrow> string list
    \<Rightarrow> exn + string" where
  "path_choose_loop validate_paths path_exists all_paths [] =
     (if validate_paths then Inl (FileNotFoundError (py_join '', '' all_paths)) else Inr [])"
| "path_choose_loop validate_paths path_exists all_paths (path # paths) =
     (if is_url path \<or> path_exists path then Inr path
      else path_choose_loop validate_paths path_exists all_paths paths)"

definition path_choose :: "bool \<Rightarrow> (string \<Rightarrow> bool) \<Rightarrow> string list \<Rightarrow> exn + string" where
  "path_choose validate_paths path_exists paths =
     path_choose_loop validate_paths path_exists paths paths"

text \<open>
  \<open>_register_resolvers\<close> binds the two functions, closed over \<open>validate_paths\<close>, to the
  names \<open>path.glob\<close> and \<open>path.choose\<close> with \<open>replace=True\<close>: whatever was registered
  under these names before, the resolvers seen after the call are the ones below.
\<close>

record resolvers =
  path_glob_resolver :: "string list \<Rightarrow> exn + string list"
  path_choose_resolver :: "string list \<Rightarrow> exn + string"

definition register_resolvers :: "filesystem \<Rightarrow> bool \<Rightarrow> resolvers" where
  "register_resolvers fs validate_paths =
     \<lparr> path_glob_resolver = path_glob validate_paths (fs_glob fs),
       path_choose_resolver = path_choose validate_paths (fs_exists fs) \<rparr>"

section \<open>Python values and the configuration classes\<close>

text \<open>
  The values a configuration holds. \<open>VObj c fs\<close> is an instance of the dataclass \<open>c\<close>
  with its fields in declaration order. \<open>VInterp name args\<close> is a placeholder
  \<open>${name:arg1,arg2}\<close> inside a document, not yet evaluated. A member of a \<open>StrEnum\<close>
  is a \<open>str\<close> (\<open>class StrEnum(str, Enum)\<close>) that equals its value, and is represented by
  \<open>VStr\<close> of that value. \<open>VFloat\<close> holds a finite float.
\<close>

datatype pyval =
    VNone
  | VBool bool
  | VInt int
  | VFloat real
  | VStr string
  | VList "pyval list"
  | VDict "(string \<times> pyval) list"
  | VObj string "(string \<times> pyval) list"
  | VInterp string "string list"

text \<open>\<open>isinstance(v, str)\<close>.\<close>

fun is_str :: "pyval \<Rightarrow> bool" where
  "is_str (VStr s) = True"
| "is_str v = False"

text \<open>The declared type of a field: \<open>int\<close>, \<open>float\<close>, \<open>bool\<close>, \<open>str\<close>, an enumeration
  with the values of its members, \<open>Optional[t]\<close>, \<open>List[t]\<close>, or a dataclass with the
  declared types of its fields.\<close>

datatype ftype =
    TInt
  | TFloat
  | TBool
  | TStr
  | TEnum string "string list"
  | TOptional ftype
  | TList ftype
  | TStruct string "(string \<times> ftype) list"

text \<open>
  A \<open>@dataclass\<close> declaration: the class name and, for each field in order, its name,
  its declared type and its default (for \<open>field(default_factory=f)\<close>, the value \<open>f()\<close>
  returns). Every field of the classes of the source has a default.
\<close>

datatype dataclass = Dataclass (dc_name: string) (dc_fields: "(string \<times> ftype \<times> pyval) list")

definition class_type :: "dataclass \<Rightarrow> ftype" where
  "class_type cls = TStruct (dc_name cls) (map (\<lambda>(k, t, d). (k, t)) (dc_fields cls))"

text \<open>\<open>cls()\<close>: the generated \<open>__init__\<close> called with no argument stores each field's
  default. It does not look at the declared types.\<close>

definition dataclass_new :: "dataclass \<Rightarrow> pyval" where
  "dataclass_new cls = VObj (dc_name cls) (map (\<lambda>(k, t, d). (k, d)) (dc_fields cls))"

text \<open>\<open>obj.name\<close> on a dataclass instance.\<close>

fun getattr :: "pyval \<Rightarrow> string \<Rightarrow> pyval option" where
  "getattr (VObj c fs) name = map_of fs name"
| "getattr v name = None"

text \<open>
  \<^verbatim>\<open>
  class OptionSelector(StrEnum):
      default = "default"
      option_a = "option_a"
      option_b = "option_b"
  \<close>
  The members, as pairs of name and value.
\<close>

definition OptionSelector :: "(string \<times> string) list" where
  "OptionSelector =
     [(''default'', ''default''), (''option_a'', ''option_a''), (''option_b'', ''option_b'')]"

text \<open>
  \<^verbatim>\<open>
  @dataclass
  class ConfigClassA(BaseConfig):
      list_a: Optional[List[str]] = None

  @dataclass
  class ConfigClassB(BaseConfig):
      label: str = 0.0
      list_b: Optional[List[str]] = None

  @dataclass
  class ConfigClassC(BaseConfig):
      a: int = 0
      b: Optional[float] = None
      c: bool = False
      option_selector: OptionSelector = OptionSelector.default
      config_class_a: ConfigClassA = field(default_factory=ConfigClassA)
      config_class_b: List[ConfigClassB] = field(default_factory=list)
  \<close>
\<close>

definition ConfigClassA :: dataclass where
  "ConfigClassA = Dataclass ''ConfigClassA'' [(''list_a'', TOptional (TList TStr), VNone)]"

definition ConfigClassB :: dataclass where
  "ConfigClassB = Dataclass ''ConfigClassB''
     [(''label'', TStr, VFloat 0),
      (''list_b'', TOptional (TList TStr), VNone)]"

definition ConfigClassC :: dataclass where
  "ConfigClassC = Dataclass ''ConfigClassC''
     [(''a'', TInt, VInt 0),
      (''b'', TOptional TFloat, VNone),
      (''c'', TBool, VBool False),
      (''option_selector'', TEnum ''OptionSelector'' (map snd OptionSelector), VStr ''default''),
      (''config_class_a'', class_type ConfigClassA, dataclass_new ConfigClassA),
      (''config_class_b'', TList (class_type ConfigClassB), VList [])]"

section \<open>\<open>BaseConfig.asdict\<close>\<close>

text \<open>
  \<open>dataclasses.asdict\<close> of the standard library: a dataclass instance becomes the
  dictionary of its fields, recursively through instances, lists and dictionaries;
  anything else is copied. It raises \<open>TypeError\<close> when its argument is not a dataclass
  instance. A dictionary is the list of its items in insertion order.
\<close>

fun asdict_inner :: "pyval \<Rightarrow> pyval" where
  "asdict_inner (VObj c fs) = VDict (map (\<lambda>(k, v). (k, asdict_inner v)) fs)"
| "asdict_inner (VList vs) = VList (map asdict_inner vs)"
| "asdict_inner (VDict kvs) = VDict (map (\<lambda>(k, v). (k, asdict_inner v)) kvs)"
| "asdict_inner v = v"

fun dataclasses_asdict :: "pyval \<Rightarrow> exn + (string \<times> pyval) list" where
  "dataclasses_asdict (VObj c fs) = Inr (map (\<lambda>(k, v). (k, asdict_inner v)) fs)"
| "dataclasses_asdict v = Inl (TypeError ''asdict() should be called on dataclass instances'')"

text \<open>
  \<^verbatim>\<open>
  def asdict(self, exclude: Optional[Iterable[str]] = None) -> Dict[str, Any]:
      out = asdict(self)  # type: ignore
      if exclude is not None:
          for name in exclude:
              if name in out:
                  del out[name]
      return out
  \<close>
\<close>

definition BaseConfig_asdict :: "pyval \<Rightarrow> string list option \<Rightarrow> exn + (string \<times> pyval) list" where
  "BaseConfig_asdict self exclude =
     and_then (dataclasses_asdict self) (\<lambda>out.
       Inr (case exclude of
              None \<Rightarrow> out
            | Some names \<Rightarrow>
                fold (\<lambda>name out. if name \<in> set (map fst out) then AList.delete name out else out)
                  names out))"

section \<open>\<open>BaseConfig.new\<close> and \<open>BaseConfig.load\<close>\<close>

text \<open>
  The loader calls the \<open>omegaconf\<close> library, which is not part of the repository. The
  library is a parameter of the model: a record of the operations the loader calls,
  each returning its value or the exception it raises. \<open>'cls\<close> is what
  \<open>om.structured\<close> accepts, \<open>'conf\<close> a configuration node (\<open>DictConfig\<close> or
  \<open>ListConfig\<close>), \<open>'v\<close> the values of keyword arguments and \<open>'obj\<close> what \<open>om.to_object\<close>
  returns. \<open>om.to_object\<close> evaluates placeholders, so it takes the registered
  resolvers.
\<close>

record ('cls, 'conf, 'v, 'obj) omegaconf =
  om_structured :: "'cls \<Rightarrow> exn + 'conf"
  om_load :: "string \<Rightarrow> exn + 'conf"
  om_getitem :: "'conf \<Rightarrow> string \<Rightarrow> exn + 'conf"
  om_merge :: "'conf \<Rightarrow> 'conf \<Rightarrow> exn + 'conf"
  om_merge_kwargs :: "'conf \<Rightarrow> (string \<times> 'v) list \<Rightarrow> exn + 'conf"
  om_from_dotlist :: "string list \<Rightarrow> exn + 'conf"
  om_to_object :: "resolvers \<Rightarrow> 'conf \<Rightarrow> exn + 'obj"

text \<open>
  \<^verbatim>\<open>
  try:
      ...
  except OmegaConfBaseException as e:
      raise ConfigurationError(str(e))
  \<close>
  \<open>reraised e\<close> is the exception that leaves the statement when its body raises \<open>e\<close>.
\<close>

definition reraised :: "exn \<Rightarrow> exn" where
  "reraised e =
     (if isinstance e ''OmegaConfBaseException'' then ConfigurationError (exn_str e) else e)"

definition except_OmegaConfBaseException :: "exn + 'a \<Rightarrow> exn + 'a" where
  "except_OmegaConfBaseException body =
     (case body of Inr v \<Rightarrow> Inr v | Inl e \<Rightarrow> Inl (reraised e))"

text \<open>
  \<^verbatim>\<open>
  def update_legacy_settings(cls, config: D) -> D:
      return config
  \<close>
\<close>

definition update_legacy_settings :: "'conf \<Rightarrow> 'conf" where
  "update_legacy_settings config = config"


text \<open>
  \<^verbatim>\<open>
  def load(cls, path, overrides=None, key=None, validate_paths=True) -> C:
      cls._register_resolvers(validate_paths=validate_paths)
      schema = om.structured(cls)
      try:
          raw = om.load(str(path))
          if key is not None:
              raw = raw[key]  # type: ignore
          raw = cls.update_legacy_settings(raw)
          conf = om.merge(schema, raw)
          if overrides:
              conf = om.merge(conf, om.from_dotlist(overrides))
          return cast(C, om.to_object(conf))
      except OmegaConfBaseException as e:
          raise ConfigurationError(str(e))
  \<close>
  \<open>overrides\<close> and \<open>key\<close> are optional; \<open>if overrides\<close> is false for \<open>None\<close> and for the
  empty list.
\<close>

definition load :: "('cls, 'conf, 'v, 'obj) omegaconf \<Rightarrow> filesystem \<Rightarrow> 'cls \<Rightarrow> string
    \<Rightarrow> string list option \<Rightarrow> string option \<Rightarrow> bool \<Rightarrow> exn + 'obj" where
  "load om fs cls path overrides key validate_paths =
     (let registered = register_resolvers fs validate_paths in
      and_then (om_structured om cls) (\<lambda>schema.
        except_OmegaConfBaseException
          (and_then (om_load om path) (\<lambda>raw.
           and_then (case key of None \<Rightarrow> Inr raw | Some k \<Rightarrow> om_getitem om raw k) (\<lambda>raw.
           and_then (om_merge om schema (update_legacy_settings raw)) (\<lambda>conf.
           and_then (case overrides of
                       None \<Rightarrow> Inr conf
                     | Some ovs \<Rightarrow>
                         if ovs = [] then Inr conf
                         else and_then (om_from_dotlist om ovs) (\<lambda>dots. om_merge om conf dots))
             (\<lambda>conf. om_to_object om registered conf)))))))"

section \<open>A model of the library operations\<close>

text \<open>
  Modelled from the spec: the exception classes of \<open>omegaconf.errors\<close>, which are not in
  the repository; first \<open>ValidationError\<close>, the error of a type mismatch. Section 7 of
  the specification has every schema, type and merge failure, and every failure of a
  placeholder, reach the caller as \<open>ConfigurationError\<close>; \<open>load\<close> and \<open>new\<close> produce
  that only from an \<open>OmegaConfBaseException\<close>, so these classes inherit from it. The
  other base class of each is the built-in class the library derives it from.
\<close>

definition ValidationError :: "string \<Rightarrow> exn" where
  "ValidationError msg =
     Exn [''ValidationError'', ''OmegaConfBaseException'', ''ValueError'', ''Exception'',
          ''BaseException'', ''object''] msg"

text \<open>Modelled from the spec: the library's error for a key that a mapping does not have,
  which is not in the repository. Section 7 calls it a lookup error; the library
  declares the class with the two bases \<open>OmegaConfBaseException\<close> and \<open>KeyError\<close>.\<close>

definition ConfigKeyError :: "string \<Rightarrow> exn" where
  "ConfigKeyError msg =
     Exn [''ConfigKeyError'', ''OmegaConfBaseException'', ''KeyError'', ''LookupError'',
          ''Exception'', ''BaseException'', ''object''] msg"

text \<open>Modelled from the spec: the library's error for a key of the wrong kind, which is not
  in the repository.\<close>

definition KeyValidationError :: "string \<Rightarrow> exn" where
  "KeyValidationError msg =
     Exn [''KeyValidationError'', ''OmegaConfBaseException'', ''ValueError'', ''Exception'',
          ''BaseException'', ''object''] msg"

text \<open>Modelled from the spec: the library's error for a placeholder whose evaluation
  fails (section 4.3, step 7), which is not in the repository.\<close>

definition InterpolationResolutionError :: "string \<Rightarrow> exn" where
  "InterpolationResolutionError msg =
     Exn [''InterpolationResolutionError'', ''OmegaConfBaseException'', ''ValueError'',
          ''Exception'', ''BaseException'', ''object''] msg"

text \<open>Modelled from the spec: the library's error for a placeholder whose name is not
  registered, which is not in the repository.\<close>

definition UnsupportedInterpolationType :: "string \<Rightarrow> exn" where
  "UnsupportedInterpolationType msg =
     Exn [''UnsupportedInterpolationType'', ''InterpolationResolutionError'',
          ''OmegaConfBaseException'', ''ValueError'', ''Exception'', ''BaseException'',
          ''object''] msg"

text \<open>
  Modelled from the spec: reading a value at a dotted path of a nested mapping
  (``each entry addresses a dotted path into the structure''), for stating what a
  configuration holds at a key.
\<close>

fun lookup_path :: "pyval \<Rightarrow> string list \<Rightarrow> pyval option" where
  "lookup_path v [] = Some v"
| "lookup_path (VDict kvs) (k # ks) =
     (case map_of kvs k of None \<Rightarrow> None | Some v \<Rightarrow> lookup_path v ks)"
| "lookup_path v (k # ks) = None"

text \<open>
  Modelled from the spec: the declared type found at a dotted path of a schema, through
  nested configuration structures.
\<close>

fun type_at :: "ftype \<Rightarrow> string list \<Rightarrow> ftype option" where
  "type_at t [] = Some t"
| "type_at (TStruct c fts) (k # ks) =
     (case map_of fts k of None \<Rightarrow> None | Some t \<Rightarrow> type_at t ks)"
| "type_at t (k # ks) = None"

text \<open>
  Modelled from the spec: the type check of the library's typed nodes, which is not in
  the repository (section 3: a value of an enumeration-typed field must be a member of
  its set; section 4.3, step 5: type mismatches fail). A value is checked against the
  declared type field by field; a mapping may only hold declared fields. With \<open>lazy\<close>
  a placeholder is accepted wherever it stands, since it is evaluated later; without
  it no placeholder is left. Values are checked, not converted.
\<close>

fun check_type :: "bool \<Rightarrow> ftype \<Rightarrow> pyval \<Rightarrow> bool" where
  "check_type lazy t (VInterp name args) = lazy"
| "check_type lazy TInt (VInt i) = True"
| "check_type lazy TFloat (VFloat x) = True"
| "check_type lazy TBool (VBool b) = True"
| "check_type lazy TStr (VStr s) = True"
| "check_type lazy (TEnum c members) (VStr s) = (s \<in> set members)"
| "check_type lazy (TOptional t) v = (v = VNone \<or> check_type lazy t v)"
| "check_type lazy (TList t) (VList vs) = list_all (check_type lazy t) vs"
| "check_type lazy (TStruct c fts) (VDict kvs) =
     list_all (\<lambda>(k, v). case map_of fts k of None \<Rightarrow> False | Some t \<Rightarrow> check_type lazy t v) kvs"
| "check_type lazy t v = False"

text \<open>
  Modelled from the spec: a configuration node of the library, which is not in the
  repository: the tree of values together with the schema it was created from, if any
  (a node made by \<open>om.structured\<close> is typed, a parsed document is not).
\<close>

type_synonym conf = "ftype option \<times> pyval"

text \<open>Modelled from the spec: the check a typed node of the library applies to a new value,
  which is not in the repository: an untyped node accepts every tree, a typed one the
  trees of its schema; a mismatch is the library's \<open>ValidationError\<close>.\<close>

definition validate :: "bool \<Rightarrow> ftype option \<Rightarrow> pyval \<Rightarrow> exn + conf" where
  "validate lazy schema v =
     (case schema of
        None \<Rightarrow> Inr (None, v)
      | Some t \<Rightarrow>
          if check_type lazy t v then Inr (Some t, v)
          else Inl (ValidationError ''Value does not match the declared type''))"

text \<open>
  Modelled from the spec: \<open>om.structured\<close>, which is not in the repository: the schema
  defaults of a configuration structure, as a typed node.
\<close>

definition model_structured :: "dataclass \<Rightarrow> exn + conf" where
  "model_structured cls = Inr (Some (class_type cls), asdict_inner (dataclass_new cls))"

text \<open>
  Modelled from the spec: \<open>om.load\<close>, which is not in the repository (section 4.3,
  step 2). \<open>yaml_file p\<close> is the parsed document of the file at \<open>p\<close>, or the error of
  opening or parsing it.
\<close>

definition model_load :: "(string \<Rightarrow> exn + pyval) \<Rightarrow> string \<Rightarrow> exn + conf" where
  "model_load yaml_file path = and_then (yaml_file path) (\<lambda>doc. Inr (None, doc))"

text \<open>
  Modelled from the spec: \<open>raw[key]\<close> on a node of the library, which is not in the
  repository (section 4.3, step 3: descend at a single top-level key; fails if absent).
  The class of the lookup error is the library's \<open>ConfigKeyError\<close>, which inherits from
  both \<open>OmegaConfBaseException\<close> and \<open>KeyError\<close>.
\<close>

definition model_getitem :: "conf \<Rightarrow> string \<Rightarrow> exn + conf" where
  "model_getitem c key =
     (case snd c of
        VDict kvs \<Rightarrow>
          (case map_of kvs key of
             None \<Rightarrow> Inl (ConfigKeyError (''Missing key '' @ key))
           | Some v \<Rightarrow> Inr (None, v))
      | _ \<Rightarrow> Inl (KeyValidationError ''ListConfig indices must be integers or slices, not str''))"

text \<open>
  Modelled from the spec: the merge of \<open>om.merge\<close>, which is not in the repository
  (section 4.3, step 5: values of the merged-in document override the values already
  there). Mappings are merged key by key, recursively; the keys keep the order of the
  target, new keys follow. Anything else is replaced by the merged-in value.
\<close>

fun merge_val :: "pyval \<Rightarrow> pyval \<Rightarrow> pyval" where
  "merge_val (VDict a) (VDict b) =
     VDict (map (\<lambda>(k, u). (k, case map_of b k of None \<Rightarrow> u | Some v \<Rightarrow> merge_val u v)) a
            @ filter (\<lambda>(k, v). map_of a k = None) b)"
| "merge_val a b = b"

text \<open>
  Modelled from the spec: \<open>om.merge\<close>, which is not in the repository. The merged tree is
  checked against the schema of the target (section 4.3, step 5: type mismatches fail
  immediately). Merging a mapping with a sequence is the library's \<open>TypeError\<close>.
\<close>

definition model_merge :: "conf \<Rightarrow> conf \<Rightarrow> exn + conf" where
  "model_merge a b =
     (case (snd a, snd b) of
        (VDict x, VDict y) \<Rightarrow> validate True (fst a) (merge_val (snd a) (snd b))
      | (VList x, VList y) \<Rightarrow> validate True (fst a) (snd b)
      | _ \<Rightarrow> Inl (TypeError ''Cannot merge DictConfig with ListConfig''))"

text \<open>
  Modelled from the spec: writing a value at a dotted path of a nested mapping, creating
  the mappings on the way, as \<open>om.from_dotlist\<close> does for each entry.
\<close>

fun set_path :: "pyval \<Rightarrow> string list \<Rightarrow> pyval \<Rightarrow> pyval" where
  "set_path t [] v = v"
| "set_path (VDict kvs) (k # ks) v =
     VDict (AList.update k
       (set_path (case map_of kvs k of None \<Rightarrow> VDict [] | Some u \<Rightarrow> u) ks v) kvs)"
| "set_path t (k # ks) v = VDict [(k, set_path (VDict []) ks v)]"

text \<open>
  Modelled from the spec: \<open>om.from_dotlist\<close>, which is not in the repository (section
  4.3, step 6: each string is \<open>key=value\<close> with a dotted key, taken in list order).
  \<open>entry_path\<close> is the dotted key before the first \<open>=\<close>, split at the dots;
  \<open>entry_text\<close> is the text after it, which \<open>yaml_value\<close> parses as a YAML value.
\<close>

definition entry_path :: "string \<Rightarrow> string list" where
  "entry_path entry = py_split (CHR ''.'') (fst (py_split1 (CHR ''='') entry))"

text \<open>Modelled from the spec: the text of the value of a \<open>key=value\<close> entry, as
  \<open>om.from_dotlist\<close>, which is not in the repository, reads it.\<close>

definition entry_text :: "string \<Rightarrow> string" where
  "entry_text entry = snd (py_split1 (CHR ''='') entry)"

text \<open>Modelled from the spec: the entries of \<open>om.from_dotlist\<close>, which is not in the
  repository, written one after the other into a tree.\<close>

definition dotlist_tree :: "(string \<Rightarrow> pyval) \<Rightarrow> string list \<Rightarrow> pyval \<Rightarrow> pyval" where
  "dotlist_tree yaml_value entries t =
     fold (\<lambda>entry t. set_path t (entry_path entry) (yaml_value (entry_text entry))) entries t"

text \<open>Modelled from the spec: \<open>om.from_dotlist\<close>, which is not in the repository: the
  entries written into an empty mapping.\<close>

definition model_from_dotlist :: "(string \<Rightarrow> pyval) \<Rightarrow> string list \<Rightarrow> exn + conf" where
  "model_from_dotlist yaml_value entries = Inr (None, dotlist_tree yaml_value entries (VDict []))"

text \<open>
  Modelled from the spec: the evaluation of placeholders by the library, which is not in
  the repository (section 4.1 and section 4.3, step 7). A placeholder calls the resolver
  registered under its name; a failure of the resolver surfaces as the library's
  \<open>InterpolationResolutionError\<close>.
\<close>

definition call_resolver :: "resolvers \<Rightarrow> string \<Rightarrow> string list \<Rightarrow> exn + pyval" where
  "call_resolver registered name args =
     (if name = ''path.glob'' then
        (case path_glob_resolver registered args of
           Inl e \<Rightarrow> Inl (InterpolationResolutionError
                       (concat (take 1 (exn_mro e)) @ '' raised while resolving interpolation: ''
                        @ exn_str e))
         | Inr matches \<Rightarrow> Inr (VList (map VStr matches)))
      else if name = ''path.choose'' then
        (case path_choose_resolver registered args of
           Inl e \<Rightarrow> Inl (InterpolationResolutionError
                       (concat (take 1 (exn_mro e)) @ '' raised while resolving interpolation: ''
                        @ exn_str e))
         | Inr chosen \<Rightarrow> Inr (VStr chosen))
      else Inl (UnsupportedInterpolationType (''Unsupported interpolation type '' @ name)))"

text \<open>Modelled from the spec: the evaluation of every placeholder of a tree by the library,
  which is not in the repository; the first failure ends it.\<close>

fun resolve :: "resolvers \<Rightarrow> pyval \<Rightarrow> exn + pyval"
  and resolve_list :: "resolvers \<Rightarrow> pyval list \<Rightarrow> exn + pyval list"
  and resolve_items :: "resolvers \<Rightarrow> (string \<times> pyval) list \<Rightarrow> exn + (string \<times> pyval) list" where
  "resolve r (VInterp name args) = call_resolver r name args"
| "resolve r (VList vs) = and_then (resolve_list r vs) (\<lambda>vs'. Inr (VList vs'))"
| "resolve r (VDict kvs) = and_then (resolve_items r kvs) (\<lambda>kvs'. Inr (VDict kvs'))"
| "resolve r v = Inr v"
| "resolve_list r [] = Inr []"
| "resolve_list r (v # vs) =
     and_then (resolve r v) (\<lambda>v'. and_then (resolve_list r vs) (\<lambda>vs'. Inr (v' # vs')))"
| "resolve_items r [] = Inr []"
| "resolve_items r ((k, v) # kvs) =
     and_then (resolve r v) (\<lambda>v'. and_then (resolve_items r kvs) (\<lambda>kvs'. Inr ((k, v') # kvs')))"

text \<open>
  Modelled from the spec: \<open>om.to_object\<close>, which is not in the repository (section 4.3,
  steps 7 and 8): every placeholder is evaluated, the result is checked against the
  schema, and the plain structure is returned. The instance of the configuration
  class is represented by the mapping from its field names to their values.
\<close>

definition model_to_object :: "resolvers \<Rightarrow> conf \<Rightarrow> exn + pyval" where
  "model_to_object registered c =
     and_then (resolve registered (snd c)) (\<lambda>v.
     and_then (validate False (fst c) v) (\<lambda>c'. Inr (snd c')))"

text \<open>
  Modelled from the spec: the library as a whole, which is not in the repository. Its
  parameters are the files (\<open>yaml_file\<close>) and the YAML reading of a value on the command
  line (\<open>yaml_value\<close>).
\<close>

definition omegaconf_model :: "(string \<Rightarrow> exn + pyval) \<Rightarrow> (string \<Rightarrow> pyval)
    \<Rightarrow> (dataclass, conf, pyval, pyval) omegaconf" where
  "omegaconf_model yaml_file yaml_value =
     \<lparr> om_structured = model_structured,
       om_load = model_load yaml_file,
       om_getitem = model_getitem,
       om_merge = model_merge,
       om_merge_kwargs = (\<lambda>c kwargs. model_merge c (None, VDict kwargs)),
       om_from_dotlist = model_from_dotlist yaml_value,
       om_to_object = model_to_object \<rparr>"

text \<open>The literal values: everything but mappings, sequences, instances and
  placeholders. Merging replaces them and evaluation leaves them as they are.\<close>

fun is_literal :: "pyval \<Rightarrow> bool" where
  "is_literal VNone = True"
| "is_literal (VBool b) = True"
| "is_literal (VInt i) = True"
| "is_literal (VFloat x) = True"
| "is_literal (VStr s) = True"
| "is_literal v = False"



section \<open>Example inputs\<close>

text \<open>A few files, a reading of command-line values and a file system, for running
  the loader.\<close>

definition example_files :: "string \<Rightarrow> exn + pyval" where
  "example_files p =
     (if p = ''cfg.yaml'' then Inr (VDict [(''a'', VInt 5)])
      else if p = ''bad.yaml'' then Inr (VDict [(''option_selector'', VStr ''nope'')])
      else if p = ''list.yaml'' then Inr (VList [])
      else if p = ''nested.yaml''
        then Inr (VDict [(''training'', VDict [(''a'', VInt 7), (''c'', VBool True)])])
      else Inl (FileNotFoundError (''[Errno 2] No such file or directory: '' @ p)))"

definition example_yaml_value :: "string \<Rightarrow> pyval" where
  "example_yaml_value s =
     (if s = ''true'' then VBool True
      else if s = ''false'' then VBool False
      else if s = ''5'' then VInt 5
      else if s = [] then VNone
      else VStr s)"

definition example_fs :: filesystem where
  "example_fs =
     \<lparr> fs_glob = (\<lambda>p. if p = ''*.txt'' then [''b.txt'', ''a.txt''] else []),
       fs_exists = (\<lambda>p. p = ''a.txt'' \<or> p = ''b.txt'') \<rparr>"

section \<open>Facts about the string primitives\<close>

lemma py_split1_append:
  "c \<notin> set k \<Longrightarrow> py_split1 c (k @ c # v) = (k, v)"
  by (induction k) (auto simp: py_split1_def)

lemma py_strip_absent:
  "c \<notin> set s \<Longrightarrow> py_strip c s = s"
proof -
  assume a: "c \<notin> set s"
  have d: "\<And>t. c \<notin> set t \<Longrightarrow> dropWhile (\<lambda>x. x = c) t = t"
    by (case_tac t) auto
  from a show ?thesis
    by (simp add: py_strip_def d)
qed

lemma py_replace_absent:
  "a \<notin> set s \<Longrightarrow> py_replace a b s = s"
  by (induction s) (auto simp: py_replace_def)

lemma py_replace_removes:
  "a \<noteq> b \<Longrightarrow> a \<notin> set (py_replace a b s)"
  by (auto simp: py_replace_def)

lemma py_strip_subset:
  "set (py_strip c s) \<subseteq> set s"
proof -
  have "set (py_strip c s) \<subseteq> set (dropWhile (\<lambda>x. x = c) s)"
    unfolding py_strip_def using set_dropWhileD by fastforce
  also have "\<dots> \<subseteq> set s"
    using set_dropWhileD by fastforce
  finally show ?thesis .
qed

lemma dropWhile_replicate_append:
  "dropWhile (\<lambda>x. x = c) (replicate m c @ t) = dropWhile (\<lambda>x. x = c) t"
  by (induction m) auto

lemma dropWhile_hd_differs:
  "t \<noteq> [] \<Longrightarrow> hd t \<noteq> c \<Longrightarrow> dropWhile (\<lambda>x. x = c) (t @ u) = t @ u"
  by (cases t) auto

lemma py_strip_sandwich:
  assumes "core = [] \<or> (hd core \<noteq> c \<and> last core \<noteq> c)"
  shows "py_strip c (replicate m c @ core @ replicate n c) = core"
proof (cases "core = []")
  case True
  have "\<forall>x \<in> set (replicate m c @ core @ replicate n c). x = c"
    using True by auto
  then have "dropWhile (\<lambda>x. x = c) (replicate m c @ core @ replicate n c) = []"
    by (simp only: dropWhile_eq_Nil_conv)
  then show ?thesis
    using True by (simp only: py_strip_def rev.simps dropWhile.simps)
next
  case False
  with assms have h: "hd core \<noteq> c" and l: "last core \<noteq> c" by auto
  have "dropWhile (\<lambda>x. x = c) (replicate m c @ core @ replicate n c)
      = dropWhile (\<lambda>x. x = c) (core @ replicate n c)"
    by (rule dropWhile_replicate_append)
  also have "\<dots> = core @ replicate n c"
    using False h by (rule dropWhile_hd_differs)
  finally have front: "dropWhile (\<lambda>x. x = c) (replicate m c @ core @ replicate n c)
      = core @ replicate n c" .
  have r: "rev core \<noteq> []" and hr: "hd (rev core) \<noteq> c"
    using False l by (simp_all add: hd_rev)
  have "dropWhile (\<lambda>x. x = c) (replicate n c @ rev core @ [])
      = dropWhile (\<lambda>x. x = c) (rev core @ [])"
    by (rule dropWhile_replicate_append)
  also have "\<dots> = rev core @ []"
    using r hr by (rule dropWhile_hd_differs)
  finally have rear: "dropWhile (\<lambda>x. x = c) (replicate n c @ rev core) = rev core"
    by simp
  show ?thesis
    unfolding py_strip_def front by (simp add: rear)
qed

lemma clean_opt_key_val:
  assumes "CHR ''='' \<notin> set k"
  shows "clean_opt (k @ ''='' @ v)
     = py_replace (CHR ''-'') (CHR ''_'') (py_strip (CHR ''-'') k) @ ''='' @ v"
  using assms py_split1_append [of "CHR ''=''" k v]
  by (simp add: clean_opt_def)

lemma clean_opt_no_eq:
  assumes "CHR ''='' \<notin> set s"
  shows "clean_opt s
     = py_replace (CHR ''-'') (CHR ''_'') (py_strip (CHR ''-'') s) @ ''=True''"
  using assms py_split1_append [of "CHR ''=''" s "''True''"]
  by (simp add: clean_opt_def)

lemma clean_opt_shape:
  "\<exists>k v. clean_opt s = k @ ''='' @ v \<and> CHR ''='' \<notin> set k \<and> CHR ''-'' \<notin> set k"
proof -
  define arg1 where "arg1 = (if CHR ''='' \<notin> set s then s @ ''=True'' else s)"
  define name where "name = takeWhile (\<lambda>x. x \<noteq> CHR ''='') arg1"
  define k where "k = py_replace (CHR ''-'') (CHR ''_'') (py_strip (CHR ''-'') name)"
  have n: "CHR ''='' \<notin> set name"
    unfolding name_def by (auto dest: set_takeWhileD)
  have "CHR ''='' \<notin> set (py_strip (CHR ''-'') name)"
    using n py_strip_subset by fastforce
  then have k1: "CHR ''='' \<notin> set k"
    unfolding k_def by (auto simp: py_replace_def)
  have k2: "CHR ''-'' \<notin> set k"
    unfolding k_def by (rule py_replace_removes) simp
  have "clean_opt s = k @ ''='' @ tl (dropWhile (\<lambda>x. x \<noteq> CHR ''='') arg1)"
    by (simp add: clean_opt_def py_split1_def k_def name_def arg1_def Let_def)
  with k1 k2 show ?thesis by blast
qed

section \<open>Claims about \<open>clean_opt\<close>\<close>

text \<open>
  Claim C4, as the source has it. Every argument is \<open>key=val\<close> with no \<open>=\<close> in the
  key, or has no \<open>=\<close> at all, and every key is a run of dashes, a core that neither
  starts nor ends with a dash, and a run of dashes. \<open>clean_opt\<close> splits at the first
  \<open>=\<close>, drops the leading and the trailing dashes of the key, replaces each dash inside
  the core with an underscore, and leaves the value as it is; an argument with no \<open>=\<close>
  is the key, and the value is \<open>True\<close>. In particular \<open>clean_opt("foo") = "foo=True"\<close>
  and \<open>clean_opt("--list-b=x,y") = "list_b=x,y"\<close>.
\<close>

theorem clean_opt_normalises_key:
  "(CHR ''='' \<notin> set core \<and> (core = [] \<or> (hd core \<noteq> CHR ''-'' \<and> last core \<noteq> CHR ''-''))
      \<longrightarrow>
        clean_opt (replicate m (CHR ''-'') @ core @ replicate n (CHR ''-'') @ ''='' @ val)
          = map (\<lambda>x. if x = CHR ''-'' then CHR ''_'' else x) core @ ''='' @ val
      \<and> clean_opt (replicate m (CHR ''-'') @ core @ replicate n (CHR ''-''))
          = map (\<lambda>x. if x = CHR ''-'' then CHR ''_'' else x) core @ ''=True'')
   \<and> clean_opt ''foo'' = ''foo=True''
   \<and> clean_opt ''--list-b=x,y'' = ''list_b=x,y''"
proof -
  let ?d = "CHR ''-''"
  have ex1: "clean_opt ''foo'' = ''foo=True''"
    by (simp add: clean_opt_def py_split1_def py_strip_def py_replace_def)
  have ex2: "clean_opt ''--list-b=x,y'' = ''list_b=x,y''"
    by (simp add: clean_opt_def py_split1_def py_strip_def py_replace_def)
  have gen: "clean_opt (replicate m ?d @ core @ replicate n ?d @ ''='' @ val)
          = map (\<lambda>x. if x = ?d then CHR ''_'' else x) core @ ''='' @ val
      \<and> clean_opt (replicate m ?d @ core @ replicate n ?d)
          = map (\<lambda>x. if x = ?d then CHR ''_'' else x) core @ ''=True''"
    if c: "CHR ''='' \<notin> set core" and e: "core = [] \<or> (hd core \<noteq> ?d \<and> last core \<noteq> ?d)"
  proof -
    let ?k = "replicate m ?d @ core @ replicate n ?d"
    have k: "CHR ''='' \<notin> set ?k"
      using c by auto
    have s: "py_strip ?d ?k = core"
      using e by (rule py_strip_sandwich)
    have "clean_opt (?k @ ''='' @ val) = py_replace ?d (CHR ''_'') core @ ''='' @ val"
      using clean_opt_key_val [OF k, of val] s by simp
    moreover have "clean_opt ?k = py_replace ?d (CHR ''_'') core @ ''=True''"
      using clean_opt_no_eq [OF k] s by simp
    ultimately show ?thesis
      by (simp add: py_replace_def)
  qed
  from ex1 ex2 gen show ?thesis
    by blast
qed

theorem clean_opt_normalises_key_witness:
  "clean_opt ''--a-b--=--c-'' = ''a_b=--c-'' \<and> clean_opt ''--a-b--'' = ''a_b=True''"
  using clean_opt_normalises_key [of "''a-b''" 2 2 "''--c-''"]
  by (simp add: numeral_2_eq_2)

text \<open>
  Claim C4 as worded strips only the leading dashes of the key. On \<open>a-=1\<close> the source drops
  the trailing dash as well: the result is \<open>a=1\<close>, where the wording gives \<open>a_=1\<close> (or
  \<open>a-=1\<close>, the argument itself, if a trailing dash is not counted among the dashes to
  replace).
\<close>

theorem clean_opt_trailing_dash_counterexample:
  "clean_opt ''a-=1'' = ''a=1''
   \<and> clean_opt_spec ''a-=1'' = ''a_=1''
   \<and> clean_opt ''a-=1'' \<noteq> clean_opt_spec ''a-=1''
   \<and> clean_opt ''a-=1'' \<noteq> ''a-=1''"
  by (simp add: clean_opt_def clean_opt_spec_def py_split1_def py_strip_def py_replace_def)

text \<open>
  Claim C8: \<open>clean_opt\<close> is idempotent. Its result is \<open>k=v\<close> where the key \<open>k\<close> holds no
  \<open>=\<close> and no dash, so a second application splits at the same place and finds nothing
  to strip or replace.
\<close>

theorem clean_opt_idempotent:
  "clean_opt (clean_opt s) = clean_opt s
   \<and> CHR ''='' \<in> set (clean_opt s)
   \<and> CHR ''-'' \<notin> set (fst (py_split1 (CHR ''='') (clean_opt s)))"
proof -
  obtain k v where r: "clean_opt s = k @ ''='' @ v"
    and k1: "CHR ''='' \<notin> set k" and k2: "CHR ''-'' \<notin> set k"
    using clean_opt_shape by blast
  have "clean_opt (k @ ''='' @ v) = k @ ''='' @ v"
    using clean_opt_key_val [OF k1, of v] k2
    by (simp add: py_strip_absent py_replace_absent)
  moreover have "py_split1 (CHR ''='') (k @ ''='' @ v) = (k, v)"
    using py_split1_append [OF k1, of v] by simp
  ultimately show ?thesis
    using r k2 by simp
qed

theorem clean_opt_idempotent_witness:
  "clean_opt (clean_opt ''--list-b=x,y'') = ''list_b=x,y''"
  using clean_opt_idempotent [of "''--list-b=x,y''"]
  by (simp add: clean_opt_def py_split1_def py_strip_def py_replace_def)

section \<open>Facts about the resolvers\<close>

lemma sort_Nil_iff: "sort xs = [] \<longleftrightarrow> xs = []"
  using length_sort [of "\<lambda>x. x" xs] by (metis length_0_conv)

lemma colon_not_scheme_char: "\<not> scheme_char (CHR '':'')"
  by code_simp

lemma is_url_iff:
  "is_url p \<longleftrightarrow> (\<exists>sch rest. sch \<noteq> [] \<and> list_all scheme_char sch \<and> p = sch @ ''://'' @ rest)"
proof
  assume u: "is_url p"
  let ?s = "takeWhile scheme_char p" and ?r = "dropWhile scheme_char p"
  from u have s: "?s \<noteq> []" and t: "take 3 ?r = ''://''"
    by (simp_all add: is_url_def Let_def)
  have "?r = take 3 ?r @ drop 3 ?r"
    by simp
  with t have "?r = ''://'' @ drop 3 ?r"
    by metis
  then have "p = ?s @ ''://'' @ drop 3 ?r"
    using takeWhile_dropWhile_id [of scheme_char p] by metis
  moreover have "list_all scheme_char ?s"
    by (auto simp: list_all_iff dest: set_takeWhileD)
  ultimately show "\<exists>sch rest. sch \<noteq> [] \<and> list_all scheme_char sch \<and> p = sch @ ''://'' @ rest"
    using s by blast
next
  assume "\<exists>sch rest. sch \<noteq> [] \<and> list_all scheme_char sch \<and> p = sch @ ''://'' @ rest"
  then obtain sch rest where n: "sch \<noteq> []" and a: "list_all scheme_char sch"
    and p: "p = sch @ ''://'' @ rest"
    by blast
  from a have all: "\<And>x. x \<in> set sch \<Longrightarrow> scheme_char x"
    by (simp add: list_all_iff)
  have "takeWhile scheme_char p = sch"
    unfolding p using all colon_not_scheme_char by (simp add: takeWhile_append2)
  moreover have "dropWhile scheme_char p = ''://'' @ rest"
    unfolding p using all colon_not_scheme_char by (simp add: dropWhile_append2)
  ultimately show "is_url p"
    using n by (simp add: is_url_def)
qed

lemma path_glob_loop_Cons:
  "path_glob_loop vp glob (p # ps) out =
     (if glob p = [] \<and> vp
      then Inl (FileNotFoundError (p @ '' does not match any files or dirs''))
      else path_glob_loop vp glob ps (out @ sort (glob p)))"
  unfolding path_glob_loop.simps Let_def sort_Nil_iff ..

lemma path_glob_loop_ok:
  "\<not> vp \<or> (\<forall>p \<in> set paths. glob p \<noteq> []) \<Longrightarrow>
   path_glob_loop vp glob paths out = Inr (out @ concat (map (\<lambda>p. sort (glob p)) paths))"
proof (induction paths arbitrary: out)
  case Nil
  show ?case by simp
next
  case (Cons p ps)
  from Cons.prems have "\<not> (glob p = [] \<and> vp)" and "\<not> vp \<or> (\<forall>p \<in> set ps. glob p \<noteq> [])"
    by auto
  then show ?case
    using Cons.IH [of "out @ sort (glob p)"]
    by (simp only: path_glob_loop_Cons if_False list.map concat.simps append_assoc)
qed

lemma path_glob_loop_fail:
  "vp \<Longrightarrow> \<forall>q \<in> set pre. glob q \<noteq> [] \<Longrightarrow> glob p = [] \<Longrightarrow>
   path_glob_loop vp glob (pre @ p # post) out
     = Inl (FileNotFoundError (p @ '' does not match any files or dirs''))"
proof (induction pre arbitrary: out)
  case Nil
  then show ?case by (simp only: path_glob_loop_Cons append_Nil simp_thms if_True)
next
  case (Cons q pre)
  from Cons.prems have "\<not> (glob q = [] \<and> vp)" and "\<forall>q \<in> set pre. glob q \<noteq> []"
    by auto
  then show ?case
    using Cons.IH [of "out @ sort (glob q)"] Cons.prems(1,3)
    by (simp only: path_glob_loop_Cons if_False append_Cons)
qed

lemma path_choose_loop_first:
  "\<forall>q \<in> set pre. \<not> is_url q \<and> \<not> ex q \<Longrightarrow> is_url p \<or> ex p \<Longrightarrow>
   path_choose_loop vp ex all_paths (pre @ p # post) = Inr p"
  by (induction pre) auto

lemma path_choose_loop_none:
  "\<forall>q \<in> set paths. \<not> is_url q \<and> \<not> ex q \<Longrightarrow>
   path_choose_loop vp ex all_paths paths
     = (if vp then Inl (FileNotFoundError (py_join '', '' all_paths)) else Inr [])"
  by (induction paths) auto

lemma path_choose_loop_url_no_probe:
  "\<forall>q \<in> set paths. \<not> is_url q \<longrightarrow> ex q = ex' q \<Longrightarrow>
   path_choose_loop vp ex all_paths paths = path_choose_loop vp ex' all_paths paths"
  by (induction paths) auto

section \<open>Claims about the resolvers\<close>

text \<open>
  Claim C5: \<open>path_glob\<close>. When validation is off, or every pattern has a match, the
  result is the concatenation, in argument order, of each pattern's matches sorted
  lexicographically. When validation is on, the first pattern without a match raises
  \<open>FileNotFoundError\<close> (the specification's \<open>PathNotFoundError\<close>), whose message names
  that pattern. When validation is off, a pattern without a match adds nothing.
\<close>

theorem path_glob_result:
  "((\<not> validate_paths \<or> (\<forall>p \<in> set paths. glob p \<noteq> [])) \<longrightarrow>
      path_glob validate_paths glob paths = Inr (concat (map (\<lambda>p. sort (glob p)) paths)))
   \<and> ((\<forall>q \<in> set pre. glob q \<noteq> []) \<and> glob p = [] \<longrightarrow>
      path_glob True glob (pre @ p # post)
        = Inl (FileNotFoundError (p @ '' does not match any files or dirs''))
      \<and> isinstance (FileNotFoundError (p @ '' does not match any files or dirs''))
           ''FileNotFoundError'')
   \<and> (glob p = [] \<longrightarrow>
      path_glob False glob (pre @ p # post) = path_glob False glob (pre @ post))
   \<and> sorted (sort (glob p)) \<and> mset (sort (glob p)) = mset (glob p)"
proof -
  have a: "path_glob validate_paths glob paths = Inr (concat (map (\<lambda>p. sort (glob p)) paths))"
    if "\<not> validate_paths \<or> (\<forall>p \<in> set paths. glob p \<noteq> [])"
    using path_glob_loop_ok [OF that, of "[]"] by (simp add: path_glob_def)
  have b: "path_glob True glob (pre @ p # post)
        = Inl (FileNotFoundError (p @ '' does not match any files or dirs''))"
    if "\<forall>q \<in> set pre. glob q \<noteq> []" and "glob p = []"
    using path_glob_loop_fail [OF _ that, of True post "[]"] by (simp add: path_glob_def)
  have c: "isinstance (FileNotFoundError (p @ '' does not match any files or dirs''))
      ''FileNotFoundError''"
    by (simp add: isinstance_def FileNotFoundError_def)
  have d: "path_glob False glob (pre @ p # post) = path_glob False glob (pre @ post)"
    if "glob p = []"
    using that path_glob_loop_ok [of False "pre @ p # post" glob "[]"]
      path_glob_loop_ok [of False "pre @ post" glob "[]"]
    by (simp add: path_glob_def)
  from a b c d show ?thesis
    by (simp del: sort_key_simps)
qed

theorem path_glob_result_witness:
  "path_glob True (\<lambda>p. if p = ''*.txt'' then [''b.txt'', ''a.txt''] else if p = ''d/*'' then [''d/x''] else [])
      [''d/*'', ''*.txt''] = Inr [''d/x'', ''a.txt'', ''b.txt'']
   \<and> path_glob True (\<lambda>p. if p = ''*.txt'' then [''b.txt'', ''a.txt''] else if p = ''d/*'' then [''d/x''] else [])
      [''d/*'', ''e*'', ''*.txt''] = Inl (FileNotFoundError ''e* does not match any files or dirs'')
   \<and> path_glob False (\<lambda>p. if p = ''*.txt'' then [''b.txt'', ''a.txt''] else if p = ''d/*'' then [''d/x''] else [])
      [''d/*'', ''e*'', ''*.txt''] = Inr [''d/x'', ''a.txt'', ''b.txt'']"
proof -
  let ?g = "\<lambda>p. if p = ''*.txt'' then [''b.txt'', ''a.txt''] else if p = ''d/*'' then [''d/x''] else []"
  have s: "sort [''b.txt'', ''a.txt''] = [''a.txt'', ''b.txt'']"
    by code_simp
  have "path_glob True ?g [''d/*'', ''*.txt''] = Inr [''d/x'', ''a.txt'', ''b.txt'']"
    using path_glob_result [where validate_paths = True and paths = "[''d/*'', ''*.txt'']"
        and glob = ?g] s
    by simp
  moreover have "path_glob True ?g ([''d/*''] @ ''e*'' # [''*.txt''])
      = Inl (FileNotFoundError ''e* does not match any files or dirs'')"
    using path_glob_result [where glob = ?g and pre = "[''d/*'']" and p = "''e*''"
        and post = "[''*.txt'']"]
    by simp
  moreover have "path_glob False ?g ([''d/*''] @ ''e*'' # [''*.txt''])
      = Inr [''d/x'', ''a.txt'', ''b.txt'']"
    using path_glob_result [where validate_paths = False
        and paths = "[''d/*''] @ ''e*'' # [''*.txt'']" and glob = ?g] s
    by simp
  ultimately show ?thesis
    by simp
qed

text \<open>
  Claim C6: \<open>path_choose\<close> returns the first argument that is a URL or exists. An
  argument is a URL exactly when it starts with a non-empty run of characters of
  \<open>[a-z0-9]\<close> followed by \<open>://\<close>; for such an argument the file system is not asked, so
  the result is the same in two file systems that agree on the arguments that are
  not URLs. When no argument qualifies the call raises \<open>FileNotFoundError\<close> (the
  specification's \<open>PathNotFoundError\<close>) with all the candidates joined by a comma
  and a space if validation is on, and returns the empty string if it is off.
\<close>

theorem path_choose_result:
  "((\<forall>q \<in> set pre. \<not> is_url q \<and> \<not> path_exists q) \<and> (is_url p \<or> path_exists p) \<longrightarrow>
      path_choose validate_paths path_exists (pre @ p # post) = Inr p)
   \<and> ((\<forall>q \<in> set paths. \<not> is_url q \<and> \<not> path_exists q) \<longrightarrow>
      path_choose True path_exists paths = Inl (FileNotFoundError (py_join '', '' paths))
      \<and> path_choose False path_exists paths = Inr [])
   \<and> ((\<forall>q \<in> set paths. \<not> is_url q \<longrightarrow> path_exists q = path_exists' q) \<longrightarrow>
      path_choose validate_paths path_exists paths = path_choose validate_paths path_exists' paths)
   \<and> (is_url p \<longleftrightarrow>
        (\<exists>scheme rest. scheme \<noteq> [] \<and> list_all scheme_char scheme \<and> p = scheme @ ''://'' @ rest))"
proof -
  have a: "path_choose validate_paths path_exists (pre @ p # post) = Inr p"
    if "\<forall>q \<in> set pre. \<not> is_url q \<and> \<not> path_exists q" and "is_url p \<or> path_exists p"
    using path_choose_loop_first [OF that] by (simp add: path_choose_def)
  have b: "path_choose True path_exists paths = Inl (FileNotFoundError (py_join '', '' paths))
      \<and> path_choose False path_exists paths = Inr []"
    if "\<forall>q \<in> set paths. \<not> is_url q \<and> \<not> path_exists q"
    using path_choose_loop_none [OF that] by (simp add: path_choose_def)
  have c: "path_choose validate_paths path_exists paths
      = path_choose validate_paths path_exists' paths"
    if "\<forall>q \<in> set paths. \<not> is_url q \<longrightarrow> path_exists q = path_exists' q"
    using path_choose_loop_url_no_probe [OF that] by (simp add: path_choose_def)
  from a b c is_url_iff [of p] show ?thesis
    by blast
qed

theorem path_choose_result_witness:
  "path_choose True (\<lambda>p. False) [''missing.txt'', ''s3://bucket/data'', ''other'']
      = Inr ''s3://bucket/data''
   \<and> path_choose True (\<lambda>p. False) [''a'', ''b''] = Inl (FileNotFoundError ''a, b'')
   \<and> path_choose False (\<lambda>p. False) [''a'', ''b''] = Inr ''''
   \<and> is_url ''s3://bucket/data''"
proof -
  have u: "is_url ''s3://bucket/data''"
    by code_simp
  have n: "\<not> is_url ''missing.txt''" "\<not> is_url ''a''" "\<not> is_url ''b''"
    by code_simp+
  have "path_choose True (\<lambda>p. False) ([''missing.txt''] @ ''s3://bucket/data'' # [''other''])
      = Inr ''s3://bucket/data''"
    using path_choose_result [where pre = "[''missing.txt'']" and path_exists = "\<lambda>p. False"
        and p = "''s3://bucket/data''" and validate_paths = True and post = "[''other'']"]
      u n
    by simp
  moreover have "path_choose True (\<lambda>p. False) [''a'', ''b''] = Inl (FileNotFoundError ''a, b'')
      \<and> path_choose False (\<lambda>p. False) [''a'', ''b''] = Inr ''''"
    using path_choose_result [where path_exists = "\<lambda>p. False" and paths = "[''a'', ''b'']"] n
    by simp
  ultimately show ?thesis
    using u by simp
qed


section \<open>Facts about the loader\<close>

lemma reraised_omegaconf:
  "isinstance e ''OmegaConfBaseException'' \<Longrightarrow> reraised e = ConfigurationError (exn_str e)"
  by (simp add: reraised_def)

lemma reraised_other:
  "\<not> isinstance e ''OmegaConfBaseException'' \<Longrightarrow> reraised e = e"
  by (simp add: reraised_def)



lemma load_fails_at_getitem:
  assumes "om_structured om cls = Inr schema" and "om_load om path = Inr raw"
    and "om_getitem om raw k = Inl e"
  shows "load om fs cls path overrides (Some k) vp = Inl (reraised e)"
  using assms
  by (simp add: load_def and_then_def except_OmegaConfBaseException_def)

lemma load_after_key:
  assumes "om_structured om cls = Inr schema" and "om_load om path = Inr raw0"
    and "(case key of None \<Rightarrow> Inr raw0 | Some k \<Rightarrow> om_getitem om raw0 k) = Inr raw"
  shows "load om fs cls path overrides key vp =
     except_OmegaConfBaseException
       (and_then (om_merge om schema raw) (\<lambda>conf.
        and_then (case overrides of
                    None \<Rightarrow> Inr conf
                  | Some ovs \<Rightarrow>
                      if ovs = [] then Inr conf
                      else and_then (om_from_dotlist om ovs) (\<lambda>dots. om_merge om conf dots))
          (\<lambda>conf. om_to_object om (register_resolvers fs vp) conf)))"
  using assms
  by (simp add: load_def and_then_def update_legacy_settings_def)



lemma except_Inl: "except_OmegaConfBaseException (Inl e) = Inl (reraised e)"
  by (simp add: except_OmegaConfBaseException_def)

lemma and_then_Inl: "and_then (Inl e) f = Inl e"
  by (simp add: and_then_def)

lemma and_then_Inr: "and_then (Inr v) f = f v"
  by (simp add: and_then_def)

lemma load_fails_at_merge:
  assumes "om_structured om cls = Inr schema" and "om_load om path = Inr raw0"
    and "(case key of None \<Rightarrow> Inr raw0 | Some k \<Rightarrow> om_getitem om raw0 k) = Inr raw"
    and "om_merge om schema raw = Inl e"
  shows "load om fs cls path overrides key vp = Inl (reraised e)"
  unfolding load_after_key [OF assms(1-3)] assms(4) and_then_Inl except_Inl ..








section \<open>Claims about the errors of the loader\<close>




text \<open>
  Claim C3, as the source has it. \<open>raw[key]\<close> stands inside the \<open>try\<close> block, so the
  error \<open>e\<close> of a failed lookup leaves \<open>load\<close> as \<open>reraised e\<close>: as
  \<open>ConfigurationError(str(e))\<close> when \<open>e\<close> is an \<open>OmegaConfBaseException\<close>, unchanged
  otherwise. The library raises \<open>ConfigKeyError\<close> for a key that a mapping does not
  have, which inherits from \<open>OmegaConfBaseException\<close> as well as from \<open>KeyError\<close>; with
  it, a key absent from the parsed document makes \<open>load\<close> raise \<open>ConfigurationError\<close>
  with the message of the lookup error.
\<close>

theorem load_missing_key:
  fixes om :: "('cls, 'conf, 'v, 'obj) omegaconf"
  shows
    "(om_structured om cls = Inr schema \<and> om_load om path = Inr raw
        \<and> om_getitem om raw k = Inl e \<longrightarrow>
      load om fs cls path overrides (Some k) vp = Inl (reraised e))
     \<and> (isinstance e ''OmegaConfBaseException'' \<longrightarrow>
          reraised e = ConfigurationError (exn_str e))
     \<and> (\<not> isinstance e ''OmegaConfBaseException'' \<longrightarrow> reraised e = e)
     \<and> (yaml_file path = Inr (VDict kvs) \<and> map_of kvs k = None \<longrightarrow>
          load (omegaconf_model yaml_file yaml_value) fs dc path overrides (Some k) vp
            = Inl (ConfigurationError (''Missing key '' @ k)))"
proof -
  have c1: "om_structured om cls = Inr schema \<and> om_load om path = Inr raw
        \<and> om_getitem om raw k = Inl e \<longrightarrow>
      load om fs cls path overrides (Some k) vp = Inl (reraised e)"
    by (intro impI, elim conjE, rule load_fails_at_getitem)
  have c2: "isinstance e ''OmegaConfBaseException'' \<longrightarrow>
      reraised e = ConfigurationError (exn_str e)"
    by (simp add: reraised_omegaconf)
  have c3: "\<not> isinstance e ''OmegaConfBaseException'' \<longrightarrow> reraised e = e"
    by (simp add: reraised_other)
  have c4: "load (omegaconf_model yaml_file yaml_value) fs dc path overrides (Some k) vp
            = Inl (ConfigurationError (''Missing key '' @ k))"
    if f: "yaml_file path = Inr (VDict kvs)" and m: "map_of kvs k = None"
  proof -
    let ?om = "omegaconf_model yaml_file yaml_value"
    let ?e = "ConfigKeyError (''Missing key '' @ k)"
    have s: "om_structured ?om dc
        = Inr (Some (class_type dc), asdict_inner (dataclass_new dc))"
      by (simp add: omegaconf_model_def model_structured_def)
    have l: "om_load ?om path = Inr (None, VDict kvs)"
      using f by (simp add: omegaconf_model_def model_load_def and_then_def)
    have g: "om_getitem ?om (None, VDict kvs) k = Inl ?e"
      using m by (simp add: omegaconf_model_def model_getitem_def)
    have "reraised ?e = ConfigurationError (''Missing key '' @ k)"
      by (simp add: reraised_def isinstance_def ConfigKeyError_def)
    then show ?thesis
      using load_fails_at_getitem [OF s l g, of fs overrides vp] by simp
  qed
  then have c4': "yaml_file path = Inr (VDict kvs) \<and> map_of kvs k = None \<longrightarrow>
      load (omegaconf_model yaml_file yaml_value) fs dc path overrides (Some k) vp
        = Inl (ConfigurationError (''Missing key '' @ k))"
    by blast
  show ?thesis
    by (intro conjI) (rule c1 c2 c3 c4')+
qed

theorem load_missing_key_witness:
  "load (omegaconf_model example_files example_yaml_value) example_fs ConfigClassC
      ''nested.yaml'' (Some [''a=5'']) (Some ''evaluation'') False
     = Inl (ConfigurationError ''Missing key evaluation'')"
proof -
  have f: "example_files ''nested.yaml''
      = Inr (VDict [(''training'', VDict [(''a'', VInt 7), (''c'', VBool True)])])"
    by code_simp
  have m: "map_of [(''training'', VDict [(''a'', VInt 7), (''c'', VBool True)])] ''evaluation''
      = None"
    by simp
  show ?thesis
    using load_missing_key [where yaml_file = example_files and path = "''nested.yaml''"
        and kvs = "[(''training'', VDict [(''a'', VInt 7), (''c'', VBool True)])]"
        and k = "''evaluation''" and yaml_value = example_yaml_value and fs = example_fs
        and dc = ConfigClassC and overrides = "Some [''a=5'']" and vp = False
        and om = "omegaconf_model example_files example_yaml_value" and cls = ConfigClassC
        and schema = "(None, VNone)" and raw = "(None, VNone)"
        and e = "ConfigKeyError ''Missing key evaluation''"] f m
    by simp
qed

text \<open>
  Claim C3 as worded has the lookup error reach the caller unwrapped. With the key
  \<open>training\<close> absent from the document of \<open>cfg.yaml\<close>, the lookup raises
  \<open>ConfigKeyError\<close> and \<open>load\<close> raises \<open>ConfigurationError\<close>, which is not a lookup
  error.
\<close>

theorem load_missing_key_counterexample:
  "om_getitem (omegaconf_model example_files example_yaml_value)
        (None, VDict [(''a'', VInt 5)]) ''training''
      = Inl (ConfigKeyError ''Missing key training'')
   \<and> load (omegaconf_model example_files example_yaml_value) example_fs ConfigClassC
        ''cfg.yaml'' None (Some ''training'') True
      = Inl (ConfigurationError ''Missing key training'')
   \<and> isinstance (ConfigurationError ''Missing key training'') ''ConfigurationError''
   \<and> \<not> isinstance (ConfigurationError ''Missing key training'') ''LookupError''"
  by code_simp


section \<open>Claims about the configuration classes\<close>

text \<open>
  Claim C9: \<open>ConfigClassB\<close> declares \<open>label\<close> with the type \<open>str\<close> and the default
  \<open>0.0\<close>. The instance built by \<open>ConfigClassB()\<close> holds the float \<open>0.0\<close> in \<open>label\<close>, and
  that value is not a string.
\<close>

theorem ConfigClassB_label_default:
  "map_of (dc_fields ConfigClassB) ''label'' = Some (TStr, VFloat 0)
   \<and> getattr (dataclass_new ConfigClassB) ''label'' = Some (VFloat 0)
   \<and> \<not> is_str (VFloat 0)"
  by (simp add: ConfigClassB_def dataclass_new_def)

theorem ConfigClassB_label_default_witness:
  "getattr (dataclass_new ConfigClassB) ''label'' \<noteq> Some (VStr ''0.0'')"
  using ConfigClassB_label_default by simp

lemma fold_delete_filter:
  "fold (\<lambda>name out. if name \<in> set (map fst out) then AList.delete name out else out) names out
     = filter (\<lambda>(k, v). k \<notin> set names) out"
proof (induction names arbitrary: out)
  case Nil
  show ?case by simp
next
  case (Cons n ns)
  have d: "AList.delete n out = filter (\<lambda>(k, v). k \<noteq> n) out"
    by (induction out) (auto simp: AList.delete_eq)
  have i: "n \<notin> set (map fst out) \<Longrightarrow> filter (\<lambda>(k, v). k \<noteq> n) out = out"
    by (induction out) auto
  have "fold (\<lambda>name out. if name \<in> set (map fst out) then AList.delete name out else out)
          (n # ns) out
      = filter (\<lambda>(k, v). k \<notin> set ns) (filter (\<lambda>(k, v). k \<noteq> n) out)"
    using Cons.IH [of "AList.delete n out"] Cons.IH [of out] d i
    by (cases "n \<in> set (map fst out)") simp_all
  also have "\<dots> = filter (\<lambda>(k, v). k \<notin> set (n # ns)) out"
    by (induction out) auto
  finally show ?case .
qed

text \<open>
  Claim C10: \<open>asdict(exclude)\<close> is \<open>asdict()\<close> without the top-level entries whose
  names are in \<open>exclude\<close>. Every other entry is kept, in the same order and with the
  same value, nested values included; a name in \<open>exclude\<close> that is not a key is
  ignored, and no such name makes the call fail.
\<close>

theorem asdict_excludes_top_level:
  "(dataclasses_asdict self = Inr out \<longrightarrow>
      BaseConfig_asdict self None = Inr out
      \<and> BaseConfig_asdict self (Some names) = Inr (filter (\<lambda>(k, v). k \<notin> set names) out)
      \<and> (\<forall>k. map_of (filter (\<lambda>(k, v). k \<notin> set names) out) k
            = (if k \<in> set names then None else map_of out k)))
   \<and> (set names \<inter> set (map fst out) = {} \<longrightarrow>
        filter (\<lambda>(k, v). k \<notin> set names) out = out)
   \<and> dataclasses_asdict (VObj c fs) = Inr (map (\<lambda>(k, v). (k, asdict_inner v)) fs)"
proof -
  have m: "map_of (filter (\<lambda>(k, v). k \<notin> set names) out) k
      = (if k \<in> set names then None else map_of out k)" for k
    by (induction out) auto
  have a: "BaseConfig_asdict self None = Inr out
      \<and> BaseConfig_asdict self (Some names) = Inr (filter (\<lambda>(k, v). k \<notin> set names) out)"
    if "dataclasses_asdict self = Inr out"
    using that
    by (simp only: BaseConfig_asdict_def and_then_def fold_delete_filter sum.case option.case
        simp_thms)
  have b: "filter (\<lambda>(k, v). k \<notin> set names) out = out"
    if "set names \<inter> set (map fst out) = {}"
    using that by (induction out) auto
  from a b m show ?thesis
    by simp
qed

theorem asdict_excludes_top_level_witness:
  "BaseConfig_asdict (dataclass_new ConfigClassC) (Some [''a'', ''missing'', ''a''])
     = Inr [(''b'', VNone), (''c'', VBool False), (''option_selector'', VStr ''default''),
            (''config_class_a'', VDict [(''list_a'', VNone)]),
            (''config_class_b'', VList [])]"
proof -
  have o: "dataclasses_asdict (dataclass_new ConfigClassC)
      = Inr [(''a'', VInt 0), (''b'', VNone), (''c'', VBool False),
             (''option_selector'', VStr ''default''),
             (''config_class_a'', VDict [(''list_a'', VNone)]),
             (''config_class_b'', VList [])]"
    by code_simp
  show ?thesis
    using asdict_excludes_top_level [where self = "dataclass_new ConfigClassC"
        and names = "[''a'', ''missing'', ''a'']"
        and out = "[(''a'', VInt 0), (''b'', VNone), (''c'', VBool False),
             (''option_selector'', VStr ''default''),
             (''config_class_a'', VDict [(''list_a'', VNone)]),
             (''config_class_b'', VList [])]"
        and c = "''ConfigClassC''" and fs = "[]"] o
    by simp
qed


section \<open>Facts about the model of the library\<close>

lemma map_of_filter_key:
  "map_of (filter (\<lambda>(k, v). Q k) b) k = (if Q k then map_of b k else None)"
  by (induction b) auto

lemma map_of_map_value:
  "map_of (map (\<lambda>(k, u). (k, f k u)) a) k = map_option (f k) (map_of a k)"
  by (induction a) auto

lemma map_of_merged:
  "map_of (map (\<lambda>(k, u). (k, case map_of b k of None \<Rightarrow> u | Some v \<Rightarrow> merge_val u v)) a
           @ filter (\<lambda>(k, v). map_of a k = None) b) k
     = (case map_of a k of
          Some u \<Rightarrow> Some (case map_of b k of None \<Rightarrow> u | Some v \<Rightarrow> merge_val u v)
        | None \<Rightarrow> map_of b k)"
  using map_of_map_value [of "\<lambda>k u. case map_of b k of None \<Rightarrow> u | Some v \<Rightarrow> merge_val u v" a k]
    map_of_filter_key [of "\<lambda>k. map_of a k = None" b k]
  by (simp add: map_add_def split: option.splits)

lemma merge_val_literal:
  "is_literal v \<Longrightarrow> merge_val a v = v"
  by (cases v; cases a) simp_all

lemma lookup_path_ConsD:
  assumes "lookup_path b (k # ks) = Some v"
  obtains kvs v1 where "b = VDict kvs" and "map_of kvs k = Some v1"
    and "lookup_path v1 ks = Some v"
  using assms by (cases b) (auto split: option.splits)

lemma merge_val_not_dict:
  "\<not> (\<exists>ak. a = VDict ak) \<Longrightarrow> merge_val a b = b"
  by (cases a; cases b) auto

lemma merge_right_bias:
  "lookup_path b p = Some v \<Longrightarrow> is_literal v \<Longrightarrow> lookup_path (merge_val a b) p = Some v"
proof (induction p arbitrary: a b)
  case Nil
  then show ?case by (simp add: merge_val_literal)
next
  case (Cons k ks)
  from Cons.prems(1) obtain bk v1 where b: "b = VDict bk" and m: "map_of bk k = Some v1"
    and l: "lookup_path v1 ks = Some v"
    by (rule lookup_path_ConsD)
  show ?case
  proof (cases "\<exists>ak. a = VDict ak")
    case True
    then obtain ak where a: "a = VDict ak" by blast
    show ?thesis
    proof (cases "map_of ak k")
      case None
      then show ?thesis
        using a b m l by (simp add: map_of_merged del: map_of_append)
    next
      case (Some u)
      then show ?thesis
        using a b m Cons.IH [OF l Cons.prems(2), of u]
        by (simp add: map_of_merged del: map_of_append)
    qed
  next
    case False
    then have "merge_val a b = b"
      by (rule merge_val_not_dict)
    with Cons.prems(1) show ?thesis by simp
  qed
qed

















lemma py_split_nonempty: "py_split c s \<noteq> []"
  by (induction s) (auto split: list.splits)

lemma entry_path_nonempty: "entry_path e \<noteq> []"
  by (simp add: entry_path_def py_split_nonempty)


lemma and_then_Inr_iff:
  "and_then r f = Inr v \<longleftrightarrow> (\<exists>x. r = Inr x \<and> f x = Inr v)"
  by (cases r) (simp_all add: and_then_def)

lemma except_Inr_iff:
  "except_OmegaConfBaseException r = Inr v \<longleftrightarrow> r = Inr v"
  by (cases r) (simp_all add: except_OmegaConfBaseException_def)




lemma type_at_ConsD:
  assumes "type_at t (k # ks) = Some t'"
  obtains c fts t1 where "t = TStruct c fts" and "map_of fts k = Some t1"
    and "type_at t1 ks = Some t'"
  using assms by (cases t) (auto split: option.splits)

lemma check_type_field:
  assumes "check_type lazy (TStruct c fts) (VDict kvs)" and "map_of kvs k = Some v"
    and "map_of fts k = Some t"
  shows "check_type lazy t v"
proof -
  from assms(2) have "(k, v) \<in> set kvs"
    by (rule map_of_SomeD)
  with assms(1) have "case map_of fts k of None \<Rightarrow> False | Some t \<Rightarrow> check_type lazy t v"
    by (auto simp: list_all_iff)
  with assms(3) show ?thesis by simp
qed

lemma check_at_path:
  "check_type lazy t v \<Longrightarrow> type_at t p = Some t' \<Longrightarrow> lookup_path v p = Some v' \<Longrightarrow>
   check_type lazy t' v'"
proof (induction p arbitrary: t v)
  case Nil
  then show ?case by simp
next
  case (Cons k ks)
  from Cons.prems(3) obtain kvs v1 where v: "v = VDict kvs" and m: "map_of kvs k = Some v1"
    and l: "lookup_path v1 ks = Some v'"
    by (rule lookup_path_ConsD)
  from Cons.prems(2) obtain c fts t1 where t: "t = TStruct c fts"
    and f: "map_of fts k = Some t1" and a: "type_at t1 ks = Some t'"
    by (rule type_at_ConsD)
  from Cons.prems(1) have "check_type lazy t1 v1"
    unfolding t v using m f by (rule check_type_field)
  then show ?case
    using a l by (rule Cons.IH)
qed

lemma check_type_enum:
  "check_type False (TEnum c members) v \<Longrightarrow> \<exists>s. v = VStr s \<and> s \<in> set members"
  by (cases v) simp_all

lemma check_type_enum_str:
  "check_type lazy (TEnum c members) (VStr s) \<longleftrightarrow> s \<in> set members"
  by simp

lemma defaults_dict:
  "\<exists>xa. asdict_inner (dataclass_new cls) = VDict xa"
  by (simp add: dataclass_new_def)

lemma model_structured_om:
  "om_structured (omegaconf_model yf yv) cls
     = Inr (Some (class_type cls), asdict_inner (dataclass_new cls))"
  by (simp add: omegaconf_model_def model_structured_def)

lemma model_load_Inr:
  "om_load (omegaconf_model yf yv) path = Inr raw \<longleftrightarrow> (\<exists>d0. yf path = Inr d0 \<and> raw = (None, d0))"
  by (auto simp: omegaconf_model_def model_load_def and_then_Inr_iff)

lemma model_getitem_Inr:
  "om_getitem (omegaconf_model yf yv) (u, d0) k = Inr raw
     \<longleftrightarrow> (\<exists>doc. lookup_path d0 [k] = Some doc \<and> raw = (None, doc))"
  by (cases d0) (auto simp: omegaconf_model_def model_getitem_def split: option.splits)

lemma model_keyed_Inr:
  "(case key of None \<Rightarrow> Inr (u, d0) | Some k \<Rightarrow> om_getitem (omegaconf_model yf yv) (u, d0) k)
     = Inr raw
   \<Longrightarrow> \<exists>doc. (case key of None \<Rightarrow> Some d0 | Some k \<Rightarrow> lookup_path d0 [k]) = Some doc
         \<and> snd raw = doc"
  by (cases key) (auto simp: model_getitem_Inr)

lemma model_keyed_intro:
  "(case key of None \<Rightarrow> Some d0 | Some k \<Rightarrow> lookup_path d0 [k]) = Some doc \<Longrightarrow>
   (case key of None \<Rightarrow> Inr (None, d0)
      | Some k \<Rightarrow> om_getitem (omegaconf_model yf yv) (None, d0) k) = Inr (None, doc)"
  by (cases key) (auto simp: model_getitem_Inr)

lemma model_merge_eq:
  "om_merge (omegaconf_model yf yv) (Some ty, VDict xa) (u, VDict yb)
     = (if check_type True ty (merge_val (VDict xa) (VDict yb))
        then Inr (Some ty, merge_val (VDict xa) (VDict yb))
        else Inl (ValidationError ''Value does not match the declared type''))"
  by (simp add: omegaconf_model_def model_merge_def validate_def)

lemma model_merge_Inr:
  assumes "om_merge (omegaconf_model yf yv) (Some ty, VDict xa) raw = Inr conf"
  shows "(\<exists>yb. snd raw = VDict yb) \<and> conf = (Some ty, merge_val (VDict xa) (snd raw))
     \<and> check_type True ty (merge_val (VDict xa) (snd raw))"
  using assms
  by (cases raw; cases "snd raw")
    (auto simp: omegaconf_model_def model_merge_def validate_def split: if_splits)

lemma model_from_dotlist_om:
  "om_from_dotlist (omegaconf_model yf yv) ovs = Inr (None, dotlist_tree yv ovs (VDict []))"
  by (simp add: omegaconf_model_def model_from_dotlist_def)

lemma model_to_object_Inr:
  assumes "om_to_object (omegaconf_model yf yv) reg (Some ty, final) = Inr obj"
  shows "resolve reg final = Inr obj \<and> check_type False ty obj"
  using assms
  by (auto simp: omegaconf_model_def model_to_object_def validate_def and_then_Inr_iff
      split: if_splits)

lemma merge_val_dicts:
  "\<exists>m. merge_val (VDict xa) (VDict yb) = VDict m"
  by simp

text \<open>What a successful \<open>load\<close> on the model of the library went through.\<close>

lemma model_load_success:
  assumes ok: "load (omegaconf_model yf yv) fs cls path overrides key vp = Inr obj"
  obtains d0 doc merged final where
    "yf path = Inr d0"
    "(case key of None \<Rightarrow> Some d0 | Some k \<Rightarrow> lookup_path d0 [k]) = Some doc"
    "\<exists>yb. doc = VDict yb"
    "merged = merge_val (asdict_inner (dataclass_new cls)) doc"
    "check_type True (class_type cls) merged"
    "final = (case overrides of
                None \<Rightarrow> merged
              | Some ovs \<Rightarrow>
                  if ovs = [] then merged
                  else merge_val merged (dotlist_tree yv ovs (VDict [])))"
    "resolve (register_resolvers fs vp) final = Inr obj"
    "check_type False (class_type cls) obj"
proof -
  let ?om = "omegaconf_model yf yv"
  let ?ty = "class_type cls"
  obtain xa where xa: "asdict_inner (dataclass_new cls) = VDict xa"
    using defaults_dict by blast
  have s: "om_structured ?om cls = Inr (Some ?ty, VDict xa)"
    by (simp add: model_structured_om xa)
  from ok obtain raw0 raw conf conf1 where
    l: "om_load ?om path = Inr raw0"
    and g: "(case key of None \<Rightarrow> Inr raw0 | Some k \<Rightarrow> om_getitem ?om raw0 k) = Inr raw"
    and m: "om_merge ?om (Some ?ty, VDict xa) raw = Inr conf"
    and o: "(case overrides of
               None \<Rightarrow> Inr conf
             | Some ovs \<Rightarrow>
                 if ovs = [] then Inr conf
                 else and_then (om_from_dotlist ?om ovs) (\<lambda>dots. om_merge ?om conf dots))
            = Inr conf1"
    and t: "om_to_object ?om (register_resolvers fs vp) conf1 = Inr obj"
    unfolding load_def Let_def s update_legacy_settings_def
    by (auto simp: and_then_Inr_iff except_Inr_iff)
  from l obtain d0 where d0: "yf path = Inr d0" and raw0: "raw0 = (None, d0)"
    by (auto simp: model_load_Inr)
  from g obtain doc where doc: "(case key of None \<Rightarrow> Some d0 | Some k \<Rightarrow> lookup_path d0 [k]) = Some doc"
    and raw: "snd raw = doc"
    unfolding raw0 using model_keyed_Inr by blast
  define merged where "merged = merge_val (VDict xa) doc"
  from model_merge_Inr [OF m] raw have dd: "\<exists>yb. doc = VDict yb"
    and conf: "conf = (Some ?ty, merged)" and c1: "check_type True ?ty merged"
    by (simp_all add: merged_def)
  obtain mm where mm: "merged = VDict mm"
    using dd merged_def by auto
  define final where "final = (case overrides of
                None \<Rightarrow> merged
              | Some ovs \<Rightarrow>
                  if ovs = [] then merged
                  else merge_val merged (dotlist_tree yv ovs (VDict [])))"
  have conf1: "conf1 = (Some ?ty, final)"
  proof (cases overrides)
    case None
    with o conf show ?thesis by (simp add: final_def)
  next
    case (Some ovs)
    show ?thesis
    proof (cases "ovs = []")
      case True
      with o conf Some show ?thesis by (simp add: final_def)
    next
      case False
      with o Some have "om_merge ?om (Some ?ty, VDict mm) (None, dotlist_tree yv ovs (VDict []))
          = Inr conf1"
        by (simp add: model_from_dotlist_om and_then_Inr conf mm)
      from model_merge_Inr [OF this] Some False show ?thesis
        by (simp add: final_def mm)
    qed
  qed
  from model_to_object_Inr [OF t [unfolded conf1]]
  have r: "resolve (register_resolvers fs vp) final = Inr obj"
    and c2: "check_type False ?ty obj"
    by simp_all
  show thesis
    by (rule that [OF d0 doc dd _ _ final_def r c2]) (simp_all add: merged_def xa c1 [unfolded merged_def])
qed

section \<open>Claims about what a loaded configuration holds\<close>



text \<open>
  Claim C7, on the model of the library. A file document that holds, at the path of
  an enumeration-typed field, a string outside the members of the enumeration makes
  \<open>load\<close> raise \<open>ConfigurationError\<close>. When \<open>load\<close> succeeds, the value at the path of
  an enumeration-typed field is a member of its enumeration.
  \<open>ConfigClassC.option_selector\<close> is such a field.
\<close>

theorem load_enum_validated:
  "(yaml_file path = Inr d0
      \<and> (case key of None \<Rightarrow> Some d0 | Some k \<Rightarrow> lookup_path d0 [k]) = Some doc
      \<and> type_at (class_type cls) p = Some (TEnum c members)
      \<and> lookup_path doc p = Some (VStr s) \<and> s \<notin> set members \<longrightarrow>
    (\<exists>msg. load (omegaconf_model yaml_file yaml_value) fs cls path overrides key vp
        = Inl (ConfigurationError msg)))
   \<and> (load (omegaconf_model yaml_file yaml_value) fs cls path overrides key vp = Inr obj
        \<and> type_at (class_type cls) p = Some (TEnum c members)
        \<and> lookup_path obj p = Some v \<longrightarrow>
      (\<exists>s. v = VStr s \<and> s \<in> set members))
   \<and> type_at (class_type ConfigClassC) [''option_selector'']
        = Some (TEnum ''OptionSelector'' [''default'', ''option_a'', ''option_b''])"
proof -
  let ?om = "omegaconf_model yaml_file yaml_value"
  let ?ty = "class_type cls"
  have c1: "\<exists>msg. load ?om fs cls path overrides key vp = Inl (ConfigurationError msg)"
    if f: "yaml_file path = Inr d0"
      and d: "(case key of None \<Rightarrow> Some d0 | Some k \<Rightarrow> lookup_path d0 [k]) = Some doc"
      and t: "type_at ?ty p = Some (TEnum c members)"
      and l: "lookup_path doc p = Some (VStr s)" and n: "s \<notin> set members"
  proof -
    obtain xa where xa: "asdict_inner (dataclass_new cls) = VDict xa"
      using defaults_dict by blast
    have st: "om_structured ?om cls = Inr (Some ?ty, VDict xa)"
      by (simp add: model_structured_om xa)
    have lo: "om_load ?om path = Inr (None, d0)"
      using f by (simp add: model_load_Inr)
    have ke: "(case key of None \<Rightarrow> Inr (None, d0) | Some k \<Rightarrow> om_getitem ?om (None, d0) k)
        = Inr (None, doc)"
      using d by (rule model_keyed_intro)
    have "p \<noteq> []"
      using t by (auto simp: class_type_def)
    then obtain k ks where p: "p = k # ks"
      by (cases p) auto
    from l obtain yb where yb: "doc = VDict yb"
      unfolding p by (rule lookup_path_ConsD)
    have m: "lookup_path (merge_val (VDict xa) doc) p = Some (VStr s)"
      using l by (rule merge_right_bias) simp
    have "\<not> check_type True ?ty (merge_val (VDict xa) doc)"
    proof
      assume "check_type True ?ty (merge_val (VDict xa) doc)"
      then have "check_type True (TEnum c members) (VStr s)"
        using t m by (rule check_at_path)
      with n show False by simp
    qed
    then have me: "om_merge ?om (Some ?ty, VDict xa) (None, doc)
        = Inl (ValidationError ''Value does not match the declared type'')"
      unfolding yb by (simp add: model_merge_eq)
    have "reraised (ValidationError ''Value does not match the declared type'')
        = ConfigurationError ''Value does not match the declared type''"
      by (simp add: reraised_def isinstance_def ValidationError_def)
    with load_fails_at_merge [OF st lo ke me, of fs overrides vp]
    have "load ?om fs cls path overrides key vp
        = Inl (ConfigurationError ''Value does not match the declared type'')"
      by simp
    then show ?thesis
      by (rule exI)
  qed
  have c2: "\<exists>s. v = VStr s \<and> s \<in> set members"
    if ok: "load ?om fs cls path overrides key vp = Inr obj"
      and t: "type_at ?ty p = Some (TEnum c members)"
      and l: "lookup_path obj p = Some v"
  proof -
    from ok have "check_type False ?ty obj"
      by (rule model_load_success)
    then have "check_type False (TEnum c members) v"
      using t l by (rule check_at_path)
    then show ?thesis
      by (rule check_type_enum)
  qed
  have c3: "type_at (class_type ConfigClassC) [''option_selector'']
        = Some (TEnum ''OptionSelector'' [''default'', ''option_a'', ''option_b''])"
    by (simp add: class_type_def ConfigClassC_def OptionSelector_def)
  from c1 c2 have c1': "yaml_file path = Inr d0
      \<and> (case key of None \<Rightarrow> Some d0 | Some k \<Rightarrow> lookup_path d0 [k]) = Some doc
      \<and> type_at (class_type cls) p = Some (TEnum c members)
      \<and> lookup_path doc p = Some (VStr s) \<and> s \<notin> set members \<longrightarrow>
    (\<exists>msg. load ?om fs cls path overrides key vp = Inl (ConfigurationError msg))"
    and c2': "load ?om fs cls path overrides key vp = Inr obj
        \<and> type_at (class_type cls) p = Some (TEnum c members)
        \<and> lookup_path obj p = Some v \<longrightarrow>
      (\<exists>s. v = VStr s \<and> s \<in> set members)"
    by blast+
  show ?thesis
    by (intro conjI) (rule c1' c2' c3)+
qed

theorem load_enum_validated_witness:
  "(\<exists>msg. load (omegaconf_model example_files example_yaml_value) example_fs ConfigClassC
        ''bad.yaml'' (Some [''option_selector=option_a'']) None True
      = Inl (ConfigurationError msg))
   \<and> lookup_path (VDict [(''option_selector'', VStr ''nope'')]) [''option_selector'']
       = Some (VStr ''nope'')
   \<and> ''nope'' \<notin> set [''default'', ''option_a'', ''option_b'']"
proof -
  have f: "example_files ''bad.yaml'' = Inr (VDict [(''option_selector'', VStr ''nope'')])"
    by code_simp
  note t = load_enum_validated [where yaml_file = example_files and path = "''bad.yaml''"
      and ?d0.0 = "VDict [(''option_selector'', VStr ''nope'')]" and key = None
      and doc = "VDict [(''option_selector'', VStr ''nope'')]" and cls = ConfigClassC
      and p = "[''option_selector'']" and c = "''OptionSelector''"
      and members = "[''default'', ''option_a'', ''option_b'']" and s = "''nope''"
      and yaml_value = example_yaml_value and fs = example_fs
      and overrides = "Some [''option_selector=option_a'']" and vp = True
      and obj = VNone and v = VNone]
  have "\<exists>msg. load (omegaconf_model example_files example_yaml_value) example_fs ConfigClassC
        ''bad.yaml'' (Some [''option_selector=option_a'']) None True
      = Inl (ConfigurationError msg)"
    using t f by simp
  then show ?thesis
    by simp
qed


end
